theory Spec2Isabelle
  imports Main
begin

section \<open>The desktop application (swot-analyzer/src/App.jsx)\<close>

text \<open>
  The component keeps thirteen React state variables. They are the fields of
  \<open>app_state\<close>, under the names of the source. Paths, names and the analysis text are
  JavaScript strings; a JavaScript string is falsy exactly when it is empty, so
  \<open>!csvPath\<close> is \<open>csvPath s = []\<close>.
\<close>

datatype tab = Questions | Swot

record app_state =
  ollamaStatus :: string
  isOllamaReady :: bool
  loading :: bool
  loadingMessage :: string
  progress :: int
  activeTab :: tab
  csvPath :: string
  businessName :: string
  questions :: "string list"
  swotCsvPath :: string
  pdfPath :: string
  swotBusinessName :: string
  swotAnalysis :: string

definition initial_state :: app_state where
  "initial_state =
     \<lparr>ollamaStatus = [], isOllamaReady = False, loading = False, loadingMessage = [],
      progress = 0, activeTab = Questions, csvPath = [], businessName = [], questions = [],
      swotCsvPath = [], pdfPath = [], swotBusinessName = [], swotAnalysis = []\<rparr>"

text \<open>
  The commands handed to \<open>invoke\<close>, with their arguments, and the result of a promise:
  \<open>Inl e\<close> when it rejects with the value \<open>e\<close> (the catch block's \<open>error\<close>, a string
  for the commands of this application), \<open>Inr v\<close> when it resolves with \<open>v\<close>.
\<close>

datatype command =
    CheckOllamaStatus
  | GenerateFollowupQuestions string string
  | GenerateSwotAnalysis string string string
  | SaveQuestionsToPdf "string list" string string
  | SaveSwotToPdf string string string

type_synonym 'a promise = "string + 'a"

text \<open>
  A handler is modelled by the list of actions it performs, in program order: the state
  setters it calls, the alerts it raises, the transport calls it issues and the timers it
  waits for. \<open>Await_timeout n\<close> is \<open>await new Promise(resolve => setTimeout(resolve, n))\<close>;
  \<open>After_timeout n\<close> is the \<open>setTimeout(..., n)\<close> of a finally block: the actions after it
  run in the timer's callback. \<open>OpenDialog e\<close> is the call of the file-open dialog
  filtered on the extension \<open>e\<close>, \<open>SaveDialog p\<close> the call of the file-save dialog with
  default path \<open>p\<close>. Console output is left out. A trace lists the calls in the order
  of the program; which of the intermediate states React paints is not modelled.
\<close>

datatype action =
    SetOllamaStatus string
  | SetIsOllamaReady bool
  | SetLoading bool
  | SetLoadingMessage string
  | SetProgress int
  | SetActiveTab tab
  | SetCsvPath string
  | SetBusinessName string
  | SetQuestions "string list"
  | SetSwotCsvPath string
  | SetPdfPath string
  | SetSwotBusinessName string
  | SetSwotAnalysis string
  | Alert string
  | Invoke command
  | OpenDialog string
  | SaveDialog string
  | Await_timeout nat
  | After_timeout nat

fun exec :: "action \<Rightarrow> app_state \<Rightarrow> app_state" where
  "exec (SetOllamaStatus v) s = s\<lparr>ollamaStatus := v\<rparr>"
| "exec (SetIsOllamaReady b) s = s\<lparr>isOllamaReady := b\<rparr>"
| "exec (SetLoading b) s = s\<lparr>loading := b\<rparr>"
| "exec (SetLoadingMessage m) s = s\<lparr>loadingMessage := m\<rparr>"
| "exec (SetProgress p) s = s\<lparr>progress := p\<rparr>"
| "exec (SetActiveTab t) s = s\<lparr>activeTab := t\<rparr>"
| "exec (SetCsvPath p) s = s\<lparr>csvPath := p\<rparr>"
| "exec (SetBusinessName n) s = s\<lparr>businessName := n\<rparr>"
| "exec (SetQuestions qs) s = s\<lparr>questions := qs\<rparr>"
| "exec (SetSwotCsvPath p) s = s\<lparr>swotCsvPath := p\<rparr>"
| "exec (SetPdfPath p) s = s\<lparr>pdfPath := p\<rparr>"
| "exec (SetSwotBusinessName n) s = s\<lparr>swotBusinessName := n\<rparr>"
| "exec (SetSwotAnalysis t) s = s\<lparr>swotAnalysis := t\<rparr>"
| "exec (Alert m) s = s"
| "exec (Invoke c) s = s"
| "exec (OpenDialog e) s = s"
| "exec (SaveDialog p) s = s"
| "exec (Await_timeout n) s = s"
| "exec (After_timeout n) s = s"

definition run :: "action list \<Rightarrow> app_state \<Rightarrow> app_state" where
  "run acts s = fold exec acts s"

subsection \<open>The handlers\<close>

definition checkOllamaStatus :: "string promise \<Rightarrow> action list" where
  "checkOllamaStatus outcome =
     Invoke CheckOllamaStatus #
     (case outcome of
        Inr status \<Rightarrow> [SetOllamaStatus status, SetIsOllamaReady True]
      | Inl error \<Rightarrow> [SetOllamaStatus error, SetIsOllamaReady False])"

text \<open>
  The file pickers: \<open>dialog\<close> is what the open dialog settles with, \<open>None\<close> when the user
  cancels. The selection is taken as the path string itself (for a string \<open>selected\<close>,
  \<open>selected.path || selected\<close> is \<open>selected\<close>).
\<close>

definition selectCsvFile :: "(string \<Rightarrow> action) \<Rightarrow> string option promise \<Rightarrow> action list" where
  "selectCsvFile setter dialog =
     OpenDialog ''csv'' #
     (case dialog of
        Inl error \<Rightarrow> [Alert (''Error selecting file: '' @ error)]
      | Inr selected \<Rightarrow>
          (case selected of
             None \<Rightarrow> []
           | Some path \<Rightarrow> if path = [] then [] else [setter path]))"

definition selectPdfFile :: "string option promise \<Rightarrow> action list" where
  "selectPdfFile dialog =
     OpenDialog ''pdf'' #
     (case dialog of
        Inl error \<Rightarrow> [Alert (''Error selecting file: '' @ error)]
      | Inr selected \<Rightarrow>
          (case selected of
             None \<Rightarrow> []
           | Some path \<Rightarrow> if path = [] then [] else [SetPdfPath path]))"

text \<open>
  Both generation handlers end with the same finally block: a timer of 500 ms whose callback
  lowers the loading flag and resets the progress bar and its message.
\<close>

definition release :: "action list" where
  "release = [After_timeout 500, SetLoading False, SetProgress 0, SetLoadingMessage []]"

text \<open>
  \<open>generateQuestions\<close> reads \<open>csvPath\<close> and \<open>businessName\<close> of the render it was created
  in (the state \<open>s\<close>); \<open>outcome\<close> is what the transport call settles with.
\<close>

definition generateQuestions :: "app_state \<Rightarrow> string list promise \<Rightarrow> action list" where
  "generateQuestions s outcome =
     (if csvPath s = [] \<or> businessName s = []
      then [Alert ''Please select a CSV file and enter a business name'']
      else
        [SetLoading True, SetProgress 0, SetLoadingMessage ''Reading CSV file...'',
         SetProgress 20, SetLoadingMessage ''Finding company data...'', Await_timeout 500,
         SetProgress 40, SetLoadingMessage ''Preparing AI prompt...'', Await_timeout 500,
         SetProgress 60, SetLoadingMessage ''Generating questions with AI...'',
         Invoke (GenerateFollowupQuestions (csvPath s) (businessName s))] @
        (case outcome of
           Inr result \<Rightarrow>
             [SetProgress 90, SetLoadingMessage ''Processing results...'', Await_timeout 300,
              SetQuestions result,
              SetProgress 100, SetLoadingMessage ''Complete!''] @
             (if length result = 0
              then [Alert ''No questions were generated. Please check if the business name exists in the CSV file.'']
              else [])
         | Inl error \<Rightarrow> [Alert (''Error generating questions: '' @ error)]) @
        release)"

definition generateSwot :: "app_state \<Rightarrow> string promise \<Rightarrow> action list" where
  "generateSwot s outcome =
     (if swotCsvPath s = [] \<or> pdfPath s = [] \<or> swotBusinessName s = []
      then [Alert ''Please select CSV file, PDF file, and enter a business name'']
      else
        [SetLoading True, SetProgress 0, SetLoadingMessage ''Reading files...'',
         SetProgress 15, SetLoadingMessage ''Processing CSV data...'', Await_timeout 500,
         SetProgress 30, SetLoadingMessage ''Extracting PDF content...'', Await_timeout 500,
         SetProgress 50, SetLoadingMessage ''Analyzing company data...'', Await_timeout 500,
         SetProgress 70, SetLoadingMessage ''Generating SWOT analysis with AI...'',
         Invoke (GenerateSwotAnalysis (swotCsvPath s) (pdfPath s) (swotBusinessName s))] @
        (case outcome of
           Inr result \<Rightarrow>
             [SetProgress 95, SetLoadingMessage ''Finalizing analysis...'', Await_timeout 300,
              SetSwotAnalysis result,
              SetProgress 100, SetLoadingMessage ''Complete!'']
         | Inl error \<Rightarrow> [Alert (''Error generating SWOT analysis: '' @ error)]) @
        release)"

text \<open>
  The save handlers: \<open>dialog\<close> is what the file-save dialog settles with (\<open>None\<close> when the
  user cancels; an empty path is falsy as well), \<open>written\<close> what the save command settles
  with.
\<close>

definition saveQuestionsToPdf ::
  "app_state \<Rightarrow> string option promise \<Rightarrow> unit promise \<Rightarrow> action list" where
  "saveQuestionsToPdf s dialog written =
     (if length (questions s) = 0 then [Alert ''No questions to save'']
      else
        SaveDialog (businessName s @ ''_questions.pdf'') #
        (case dialog of
           Inl error \<Rightarrow> [Alert (''Error saving questions: '' @ error)]
         | Inr savePath \<Rightarrow>
             (case savePath of
                None \<Rightarrow> []
              | Some p \<Rightarrow>
                  if p = [] then []
                  else
                    Invoke (SaveQuestionsToPdf (questions s) (businessName s) p) #
                    (case written of
                       Inl error \<Rightarrow> [Alert (''Error saving questions: '' @ error)]
                     | Inr _ \<Rightarrow> [Alert ''Questions saved successfully!'']))))"

definition saveSwotToPdf ::
  "app_state \<Rightarrow> string option promise \<Rightarrow> unit promise \<Rightarrow> action list" where
  "saveSwotToPdf s dialog written =
     (if swotAnalysis s = [] then [Alert ''No SWOT analysis to save'']
      else
        SaveDialog (swotBusinessName s @ ''_swot.pdf'') #
        (case dialog of
           Inl error \<Rightarrow> [Alert (''Error saving SWOT analysis: '' @ error)]
         | Inr savePath \<Rightarrow>
             (case savePath of
                None \<Rightarrow> []
              | Some p \<Rightarrow>
                  if p = [] then []
                  else
                    Invoke (SaveSwotToPdf (swotAnalysis s) (swotBusinessName s) p) #
                    (case written of
                       Inl error \<Rightarrow> [Alert (''Error saving SWOT analysis: '' @ error)]
                     | Inr _ \<Rightarrow> [Alert ''SWOT analysis saved successfully!'']))))"

subsection \<open>What is observed of a trace\<close>

fun progress_values :: "action list \<Rightarrow> int list" where
  "progress_values [] = []"
| "progress_values (SetProgress p # acts) = p # progress_values acts"
| "progress_values (a # acts) = progress_values acts"

fun invocations :: "action list \<Rightarrow> command list" where
  "invocations [] = []"
| "invocations (Invoke c # acts) = c # invocations acts"
| "invocations (a # acts) = invocations acts"

fun alerts :: "action list \<Rightarrow> string list" where
  "alerts [] = []"
| "alerts (Alert m # acts) = m # alerts acts"
| "alerts (a # acts) = alerts acts"

text \<open>
  A phase of the progress display is a call of \<open>setProgress\<close> followed at once by a call
  of \<open>setLoadingMessage\<close>: the percentage with its label.
\<close>

fun phases :: "action list \<Rightarrow> (int \<times> string) list" where
  "phases (SetProgress p # SetLoadingMessage m # acts) = (p, m) # phases acts"
| "phases (a # acts) = phases acts"
| "phases [] = []"

text \<open>
  The part of a trace that runs before the timer of the finally block fires, and the part
  that runs before the first transport call is issued.
\<close>

fun is_release_timer :: "action \<Rightarrow> bool" where
  "is_release_timer (After_timeout n) = True"
| "is_release_timer a = False"

fun is_invoke :: "action \<Rightarrow> bool" where
  "is_invoke (Invoke c) = True"
| "is_invoke a = False"

definition until_release :: "action list \<Rightarrow> action list" where
  "until_release acts = takeWhile (\<lambda>a. \<not> is_release_timer a) acts"

definition until_invoke :: "action list \<Rightarrow> action list" where
  "until_invoke acts = takeWhile (\<lambda>a. \<not> is_invoke a) acts"

subsection \<open>What is rendered, and the events of a session\<close>

text \<open>
  The retry button is rendered when \<open>isOllamaReady\<close> is false, the main content (tabs,
  forms, generate and save buttons) when it is true, and of the two tabs only the active
  one. The generate buttons carry a \<open>disabled\<close> attribute.
\<close>

definition retryButtonShown :: "app_state \<Rightarrow> bool" where
  "retryButtonShown s = (\<not> isOllamaReady s)"

definition tabShown :: "app_state \<Rightarrow> tab \<Rightarrow> bool" where
  "tabShown s t = (isOllamaReady s \<and> activeTab s = t)"

definition questionsButtonDisabled :: "app_state \<Rightarrow> bool" where
  "questionsButtonDisabled s = (loading s \<or> csvPath s = [] \<or> businessName s = [])"

definition swotButtonDisabled :: "app_state \<Rightarrow> bool" where
  "swotButtonDisabled s =
     (loading s \<or> swotCsvPath s = [] \<or> pdfPath s = [] \<or> swotBusinessName s = [])"

definition saveQuestionsButtonShown :: "app_state \<Rightarrow> bool" where
  "saveQuestionsButtonShown s = (tabShown s Questions \<and> length (questions s) > 0)"

definition saveSwotButtonShown :: "app_state \<Rightarrow> bool" where
  "saveSwotButtonShown s = (tabShown s Swot \<and> swotAnalysis s \<noteq> [])"

text \<open>
  The events of a session: the mount of the component (its effect runs
  \<open>checkOllamaStatus\<close>) and the user's actions on the controls, each with what the
  promises awaited by its handler settle with. An action on a control that is not
  rendered, or a click on a disabled button, runs no handler.
\<close>

datatype event =
    Mount "string promise"
  | ClickRetry "string promise"
  | ClickTab tab
  | BrowseCsv "string option promise"
  | TypeBusinessName string
  | ClickGenerateQuestions "string list promise"
  | ClickSaveQuestions "string option promise" "unit promise"
  | BrowseSwotCsv "string option promise"
  | BrowsePdf "string option promise"
  | TypeSwotBusinessName string
  | ClickGenerateSwot "string promise"
  | ClickSaveSwot "string option promise" "unit promise"

fun handle :: "app_state \<Rightarrow> event \<Rightarrow> action list" where
  "handle s (Mount outcome) = checkOllamaStatus outcome"
| "handle s (ClickRetry outcome) =
     (if retryButtonShown s then checkOllamaStatus outcome else [])"
| "handle s (ClickTab t) = (if isOllamaReady s then [SetActiveTab t] else [])"
| "handle s (BrowseCsv dialog) =
     (if tabShown s Questions then selectCsvFile SetCsvPath dialog else [])"
| "handle s (TypeBusinessName n) =
     (if tabShown s Questions then [SetBusinessName n] else [])"
| "handle s (ClickGenerateQuestions outcome) =
     (if tabShown s Questions \<and> \<not> questionsButtonDisabled s
      then generateQuestions s outcome else [])"
| "handle s (ClickSaveQuestions dialog written) =
     (if saveQuestionsButtonShown s then saveQuestionsToPdf s dialog written else [])"
| "handle s (BrowseSwotCsv dialog) =
     (if tabShown s Swot then selectCsvFile SetSwotCsvPath dialog else [])"
| "handle s (BrowsePdf dialog) =
     (if tabShown s Swot then selectPdfFile dialog else [])"
| "handle s (TypeSwotBusinessName n) =
     (if tabShown s Swot then [SetSwotBusinessName n] else [])"
| "handle s (ClickGenerateSwot outcome) =
     (if tabShown s Swot \<and> \<not> swotButtonDisabled s
      then generateSwot s outcome else [])"
| "handle s (ClickSaveSwot dialog written) =
     (if saveSwotButtonShown s then saveSwotToPdf s dialog written else [])"

text \<open>
  The trace of a session: the handlers of its events one after the other, each run to its
  end on the state the previous ones left.
\<close>

fun session :: "app_state \<Rightarrow> event list \<Rightarrow> action list" where
  "session s [] = []"
| "session s (e # es) = handle s e @ session (run (handle s e) s) es"

section \<open>The hosted application (public-swot/frontend/src/App.jsx)\<close>

text \<open>
  The two forms, the parsed response bodies and the component's state. A selected file is
  named by a string, \<open>None\<close> is the initial \<open>null\<close>. The fields of the two forms and of
  the two response bodies carry a prefix, since a field name is declared once.
\<close>

type_synonym file_ref = string

record questions_form =
  q_csvFile :: "file_ref option"
  q_businessName :: string
  q_apiKey :: string

record swot_form =
  s_csvFile :: "file_ref option"
  s_pdfFile :: "file_ref option"
  s_businessName :: string
  s_apiKey :: string

record questions_data =
  business_name :: string
  questions_count :: int
  questions_preview :: "string list option"
  pdf_id :: string

record swot_data =
  swot_business_name :: string
  swot_analysis :: string
  swot_pdf_id :: string

record web_state =
  web_activeTab :: tab
  questionsForm :: questions_form
  swotForm :: swot_form
  questionsLoading :: bool
  swotLoading :: bool
  questionsResult :: "questions_data option"
  swotResult :: "swot_data option"
  error :: "string option"

definition web_initial :: web_state where
  "web_initial =
     \<lparr>web_activeTab = Questions,
      questionsForm = \<lparr>q_csvFile = None, q_businessName = [], q_apiKey = []\<rparr>,
      swotForm = \<lparr>s_csvFile = None, s_pdfFile = None, s_businessName = [], s_apiKey = []\<rparr>,
      questionsLoading = False, swotLoading = False,
      questionsResult = None, swotResult = None, error = None\<rparr>"

text \<open>
  What one exchange with the server settles with: \<open>Rejected m\<close> when \<open>fetch\<close> or the
  reading of the body throws an error of message \<open>m\<close>, \<open>Status_error d\<close> when the body is
  read and \<open>response.ok\<close> is false (\<open>d\<close> is the body's \<open>detail\<close>: missing, a string, or
  an object with or without a string \<open>message\<close>), \<open>Status_ok v\<close> when \<open>response.ok\<close> is
  true and the body is \<open>v\<close>.
\<close>

datatype detail = NoDetail | DetailString string | DetailObject "string option"

datatype 'a exchange = Rejected string | Status_error detail | Status_ok 'a

datatype request =
    PostGenerateQuestions "file_ref option" string string
  | PostGenerateSwot "file_ref option" "file_ref option" string string
  | GetDownloadPdf string

datatype web_action =
    PreventDefault
  | SetQuestionsLoading bool
  | SetSwotLoading bool
  | SetQuestionsResult "questions_data option"
  | SetSwotResult "swot_data option"
  | SetError "string option"
  | Fetch request
  | SaveBlob string string

fun web_exec :: "web_action \<Rightarrow> web_state \<Rightarrow> web_state" where
  "web_exec PreventDefault s = s"
| "web_exec (SetQuestionsLoading b) s = s\<lparr>questionsLoading := b\<rparr>"
| "web_exec (SetSwotLoading b) s = s\<lparr>swotLoading := b\<rparr>"
| "web_exec (SetQuestionsResult r) s = s\<lparr>questionsResult := r\<rparr>"
| "web_exec (SetSwotResult r) s = s\<lparr>swotResult := r\<rparr>"
| "web_exec (SetError e) s = s\<lparr>error := e\<rparr>"
| "web_exec (Fetch r) s = s"
| "web_exec (SaveBlob name blob) s = s"

definition web_run :: "web_action list \<Rightarrow> web_state \<Rightarrow> web_state" where
  "web_run acts s = fold web_exec acts s"

text \<open>
  The message of the error thrown on a response that is not ok:
  \<open>data.detail?.message || data.detail || fallback\<close>, made a string by \<open>new Error\<close>
  (an object becomes \<open>[object Object]\<close>).
\<close>

fun errorMessage :: "detail \<Rightarrow> string \<Rightarrow> string" where
  "errorMessage NoDetail fallback = fallback"
| "errorMessage (DetailString d) fallback = (if d = [] then fallback else d)"
| "errorMessage (DetailObject None) fallback = ''[object Object]''"
| "errorMessage (DetailObject (Some m)) fallback = (if m = [] then ''[object Object]'' else m)"

definition generateQuestions_web ::
  "web_state \<Rightarrow> questions_data exchange \<Rightarrow> web_action list" where
  "generateQuestions_web s outcome =
     [PreventDefault, SetQuestionsLoading True, SetError None, SetQuestionsResult None,
      Fetch (PostGenerateQuestions (q_csvFile (questionsForm s))
               (q_businessName (questionsForm s)) (q_apiKey (questionsForm s)))] @
     (case outcome of
        Status_ok data \<Rightarrow> [SetQuestionsResult (Some data)]
      | Status_error d \<Rightarrow> [SetError (Some (errorMessage d ''Error generating questions''))]
      | Rejected m \<Rightarrow> [SetError (Some m)]) @
     [SetQuestionsLoading False]"

definition generateSwot_web :: "web_state \<Rightarrow> swot_data exchange \<Rightarrow> web_action list" where
  "generateSwot_web s outcome =
     [PreventDefault, SetSwotLoading True, SetError None, SetSwotResult None,
      Fetch (PostGenerateSwot (s_csvFile (swotForm s)) (s_pdfFile (swotForm s))
               (s_businessName (swotForm s)) (s_apiKey (swotForm s)))] @
     (case outcome of
        Status_ok data \<Rightarrow> [SetSwotResult (Some data)]
      | Status_error d \<Rightarrow> [SetError (Some (errorMessage d ''Error generating SWOT analysis''))]
      | Rejected m \<Rightarrow> [SetError (Some m)]) @
     [SetSwotLoading False]"

text \<open>
  \<open>downloadPdf\<close>: the body of an ok response is the blob that is saved under \<open>filename\<close>;
  a response that is not ok throws \<open>Download failed\<close>, and the catch block shows one
  fixed text for whatever was thrown.
\<close>

definition downloadPdf :: "string \<Rightarrow> string \<Rightarrow> string exchange \<Rightarrow> web_action list" where
  "downloadPdf pdfId filename outcome =
     Fetch (GetDownloadPdf pdfId) #
     (case outcome of
        Status_ok blob \<Rightarrow> [SaveBlob filename blob]
      | Status_error d \<Rightarrow> [SetError (Some ''Failed to download PDF'')]
      | Rejected m \<Rightarrow> [SetError (Some ''Failed to download PDF'')])"





fun web_until_fetch :: "web_action list \<Rightarrow> web_action list" where
  "web_until_fetch [] = []"
| "web_until_fetch (Fetch r # acts) = []"
| "web_until_fetch (a # acts) = a # web_until_fetch acts"

text \<open>
  The block rendered under a questions result when \<open>questions_preview\<close> is present: the
  numbered preview, then the line that counts the remaining questions. A rendered line is
  a list of text pieces and numbers.
\<close>

datatype piece = Text string | Number int

fun previewItems :: "int \<Rightarrow> string list \<Rightarrow> piece list list" where
  "previewItems index [] = []"
| "previewItems index (question # rest) =
     [Number (index + 1), Text ''.'', Text question] # previewItems (index + 1) rest"

definition additionalLine :: "questions_data \<Rightarrow> piece list" where
  "additionalLine r =
     [Text ''... et '', Number (questions_count r - 5),
      Text ('' questions suppl'' @ [CHR 0xC3, CHR 0xA9] @ ''mentaires dans le PDF'')]"

definition previewBlock :: "web_state \<Rightarrow> piece list list option" where
  "previewBlock s =
     (case questionsResult s of
        None \<Rightarrow> None
      | Some r \<Rightarrow>
          (case questions_preview r of
             None \<Rightarrow> None
           | Some preview \<Rightarrow> Some (previewItems 0 preview @ [additionalLine r])))"

section \<open>The validator as the specification words it\<close>

text \<open>
  The specification's \<open>validate\<close>, written from its words, to be compared with the guards
  of the handlers: every field of a request is required, a field is empty when it has
  nothing but whitespace, and a failure names the first empty field in the order
  inputCsv, (inputPdf,) businessName, credential.
\<close>

datatype field = InputCsv | InputPdf | BusinessName | Credential

datatype validation_result = Valid | MissingField field

datatype generation_request =
    QuestionsRequest string string string
  | SwotRequest string string string string

definition is_whitespace :: "char \<Rightarrow> bool" where
  "is_whitespace c = (c = CHR '' '' \<or> c = CHR 0x09 \<or> c = CHR 0x0A \<or> c = CHR 0x0D)"

definition is_empty_field :: "string \<Rightarrow> bool" where
  "is_empty_field v = (filter (\<lambda>c. \<not> is_whitespace c) v = [])"

fun spec_validate :: "generation_request \<Rightarrow> validation_result" where
  "spec_validate (QuestionsRequest inputCsv name credential) =
     (if is_empty_field inputCsv then MissingField InputCsv
      else if is_empty_field name then MissingField BusinessName
      else if is_empty_field credential then MissingField Credential
      else Valid)"
| "spec_validate (SwotRequest inputCsv inputPdf name credential) =
     (if is_empty_field inputCsv then MissingField InputCsv
      else if is_empty_field inputPdf then MissingField InputPdf
      else if is_empty_field name then MissingField BusinessName
      else if is_empty_field credential then MissingField Credential
      else Valid)"

text \<open>
  The state of the desktop application once a request's fields are entered in the form of
  its workflow. The desktop forms have no field for a credential.
\<close>

fun entered :: "generation_request \<Rightarrow> app_state" where
  "entered (QuestionsRequest inputCsv name credential) =
     initial_state\<lparr>isOllamaReady := True, csvPath := inputCsv, businessName := name\<rparr>"
| "entered (SwotRequest inputCsv inputPdf name credential) =
     initial_state\<lparr>isOllamaReady := True, activeTab := Swot, swotCsvPath := inputCsv,
       pdfPath := inputPdf, swotBusinessName := name\<rparr>"

text \<open>A state of the desktop application with the forms of both workflows filled in.\<close>

definition both_entered :: app_state where
  "both_entered =
     initial_state\<lparr>isOllamaReady := True, csvPath := ''acme.csv'',
       businessName := ''Acme Corp'', swotCsvPath := ''acme.csv'', pdfPath := ''qa.pdf'',
       swotBusinessName := ''Acme Corp''\<rparr>"

text \<open>
  A session of the desktop application: the check at mount fails, the user tries to
  generate, retries the check with success, fills in the questions form and generates.
\<close>

definition scenario_d :: "event list" where
  "scenario_d =
     [Mount (Inl ''Ollama is not running''), ClickGenerateQuestions (Inr [''Q1'']),
      ClickRetry (Inr ''Ollama is running''), BrowseCsv (Inr (Some ''acme.csv'')),
      TypeBusinessName ''Acme Corp'', ClickGenerateQuestions (Inr [''Q1''])]"

text \<open>A state of the hosted application with both forms filled in.\<close>

definition web_entered :: web_state where
  "web_entered =
     web_initial\<lparr>
       questionsForm :=
         \<lparr>q_csvFile = Some ''acme.csv'', q_businessName = ''Acme Corp'', q_apiKey = ''sk-test''\<rparr>,
       swotForm :=
         \<lparr>s_csvFile = Some ''acme.csv'', s_pdfFile = Some ''qa.pdf'',
          s_businessName = ''Acme Corp'', s_apiKey = ''sk-test''\<rparr>\<rparr>"

text \<open>The numbers that a rendered line shows.\<close>

fun numbers :: "piece list \<Rightarrow> int list" where
  "numbers [] = []"
| "numbers (Number n # ps) = n # numbers ps"
| "numbers (Text t # ps) = numbers ps"

text \<open>
  Two response bodies of the questions endpoint, one of 62 questions with the usual
  preview of five and one of three questions, and a state of the desktop application
  that holds results of both workflows.
\<close>

definition scenario_a_result :: questions_data where
  "scenario_a_result =
     \<lparr>business_name = ''Acme Corp'', questions_count = 62,
      questions_preview = Some [''Q1'', ''Q2'', ''Q3'', ''Q4'', ''Q5''], pdf_id = ''abc123''\<rparr>"

definition short_result :: questions_data where
  "short_result =
     \<lparr>business_name = ''Acme Corp'', questions_count = 3,
      questions_preview = Some [''Q1'', ''Q2'', ''Q3''], pdf_id = ''abc124''\<rparr>"

definition with_results :: app_state where
  "with_results = both_entered\<lparr>questions := [''Q1''], swotAnalysis := ''Strengths''\<rparr>"

section \<open>Properties of the desktop handlers\<close>

lemma until_release_simps [simp]:
  "until_release [] = []"
  "until_release (After_timeout n # acts) = []"
  "\<not> is_release_timer a \<Longrightarrow> until_release (a # acts) = a # until_release acts"
  by (simp_all add: until_release_def)

lemma until_invoke_simps [simp]:
  "until_invoke [] = []"
  "until_invoke (Invoke c # acts) = []"
  "\<not> is_invoke a \<Longrightarrow> until_invoke (a # acts) = a # until_invoke acts"
  by (simp_all add: until_invoke_def)

lemma run_simps [simp]:
  "run [] s = s"
  "run (a # acts) s = run acts (exec a s)"
  by (simp_all add: run_def)

lemma run_append: "run (xs @ ys) s = run ys (run xs s)"
  by (simp add: run_def)

subsection \<open>Validation\<close>

text \<open>
  C1, as the handlers do it. The guard of \<open>generateQuestions\<close> fails exactly when
  \<open>csvPath\<close> or \<open>businessName\<close> is the empty string, the guard of \<open>generateSwot\<close> exactly
  when \<open>swotCsvPath\<close>, \<open>pdfPath\<close> or \<open>swotBusinessName\<close> is. A string of whitespace is not
  empty, and no credential is looked at. When the guard fails the handler raises one fixed
  alert, the same for every missing field, and does nothing else; when it passes the
  handler issues its transport call on the fields as they are.
\<close>

theorem guards_of_the_handlers:
  "(csvPath s = [] \<or> businessName s = [] \<longrightarrow>
      generateQuestions s q = [Alert ''Please select a CSV file and enter a business name'']) \<and>
   (csvPath s \<noteq> [] \<and> businessName s \<noteq> [] \<longrightarrow>
      invocations (generateQuestions s q) =
        [GenerateFollowupQuestions (csvPath s) (businessName s)]) \<and>
   (swotCsvPath s = [] \<or> pdfPath s = [] \<or> swotBusinessName s = [] \<longrightarrow>
      generateSwot s w = [Alert ''Please select CSV file, PDF file, and enter a business name'']) \<and>
   (swotCsvPath s \<noteq> [] \<and> pdfPath s \<noteq> [] \<and> swotBusinessName s \<noteq> [] \<longrightarrow>
      invocations (generateSwot s w) =
        [GenerateSwotAnalysis (swotCsvPath s) (pdfPath s) (swotBusinessName s)])"
  by (auto simp: generateQuestions_def generateSwot_def release_def split: sum.splits)

theorem guards_of_the_handlers_witness:
  "csvPath (entered (QuestionsRequest [] ''Acme Corp'' ''sk-test'')) = [] \<and>
   generateQuestions (entered (QuestionsRequest [] ''Acme Corp'' ''sk-test'')) (Inr [''Q1'']) =
     [Alert ''Please select a CSV file and enter a business name''] \<and>
   csvPath (entered (QuestionsRequest ''acme.csv'' ''Acme Corp'' ''sk-test'')) \<noteq> [] \<and>
   businessName (entered (QuestionsRequest ''acme.csv'' ''Acme Corp'' ''sk-test'')) \<noteq> [] \<and>
   invocations
     (generateQuestions (entered (QuestionsRequest ''acme.csv'' ''Acme Corp'' ''sk-test''))
        (Inr [''Q1''])) =
     [GenerateFollowupQuestions ''acme.csv'' ''Acme Corp''] \<and>
   pdfPath (entered (SwotRequest ''acme.csv'' [] ''Acme Corp'' ''sk-test'')) = [] \<and>
   generateSwot (entered (SwotRequest ''acme.csv'' [] ''Acme Corp'' ''sk-test'')) (Inr ''S'') =
     [Alert ''Please select CSV file, PDF file, and enter a business name''] \<and>
   swotCsvPath (entered (SwotRequest ''acme.csv'' ''qa.pdf'' ''Acme Corp'' ''sk-test'')) \<noteq> [] \<and>
   pdfPath (entered (SwotRequest ''acme.csv'' ''qa.pdf'' ''Acme Corp'' ''sk-test'')) \<noteq> [] \<and>
   swotBusinessName (entered (SwotRequest ''acme.csv'' ''qa.pdf'' ''Acme Corp'' ''sk-test'')) \<noteq> [] \<and>
   invocations
     (generateSwot (entered (SwotRequest ''acme.csv'' ''qa.pdf'' ''Acme Corp'' ''sk-test''))
        (Inr ''S'')) =
     [GenerateSwotAnalysis ''acme.csv'' ''qa.pdf'' ''Acme Corp'']"
  using
    guards_of_the_handlers [of "entered (QuestionsRequest [] ''Acme Corp'' ''sk-test'')"
      "Inr [''Q1'']" "Inr ''S''"]
    guards_of_the_handlers [of "entered (QuestionsRequest ''acme.csv'' ''Acme Corp'' ''sk-test'')"
      "Inr [''Q1'']" "Inr ''S''"]
    guards_of_the_handlers [of "entered (SwotRequest ''acme.csv'' [] ''Acme Corp'' ''sk-test'')"
      "Inr [''Q1'']" "Inr ''S''"]
    guards_of_the_handlers [of "entered (SwotRequest ''acme.csv'' ''qa.pdf'' ''Acme Corp'' ''sk-test'')"
      "Inr [''Q1'']" "Inr ''S''"]
  by (simp add: initial_state_def)

text \<open>
  C1 as the specification states it fails on the handlers. A business name that is one
  blank is an empty field for \<open>spec_validate\<close>, yet \<open>generateQuestions\<close> passes its guard
  and sends the blank name to the transport. And a SWOT request without its PDF gets the
  very trace of a SWOT request without its CSV: the alert does not name the field.
\<close>

theorem validate_counterexample:
  "spec_validate (QuestionsRequest ''acme.csv'' '' '' ''sk-test'') = MissingField BusinessName \<and>
   invocations
     (generateQuestions (entered (QuestionsRequest ''acme.csv'' '' '' ''sk-test''))
        (Inr [''Q1''])) =
     [GenerateFollowupQuestions ''acme.csv'' '' ''] \<and>
   spec_validate (SwotRequest ''acme.csv'' [] ''Acme Corp'' ''sk-test'') = MissingField InputPdf \<and>
   spec_validate (SwotRequest [] ''qa.pdf'' ''Acme Corp'' ''sk-test'') = MissingField InputCsv \<and>
   generateSwot (entered (SwotRequest ''acme.csv'' [] ''Acme Corp'' ''sk-test'')) (Inr ''S'') =
   generateSwot (entered (SwotRequest [] ''qa.pdf'' ''Acme Corp'' ''sk-test'')) (Inr ''S'')"
  by (simp add: is_empty_field_def is_whitespace_def generateQuestions_def generateSwot_def
      release_def initial_state_def)

text \<open>
  C2, as the handlers do it. A request that fails the guard of its handler, one of the
  form's fields being the empty string, issues no transport call, for whatever the
  transport would have answered: the handler raises its one fixed alert, which is the
  report of the failure, sets no progress and leaves the state as it was (the loading
  flag is never raised, so there is nothing to release). In such a state the generate
  button is disabled as well, so a click on it runs no handler at all.
\<close>

theorem no_transport_when_guard_fails:
  "(csvPath s = [] \<or> businessName s = [] \<longrightarrow>
      alerts (generateQuestions s q) =
        [''Please select a CSV file and enter a business name''] \<and>
      invocations (generateQuestions s q) = [] \<and>
      progress_values (generateQuestions s q) = [] \<and>
      run (generateQuestions s q) s = s \<and>
      handle s (ClickGenerateQuestions q) = []) \<and>
   (swotCsvPath s = [] \<or> pdfPath s = [] \<or> swotBusinessName s = [] \<longrightarrow>
      alerts (generateSwot s w) =
        [''Please select CSV file, PDF file, and enter a business name''] \<and>
      invocations (generateSwot s w) = [] \<and>
      progress_values (generateSwot s w) = [] \<and>
      run (generateSwot s w) s = s \<and>
      handle s (ClickGenerateSwot w) = [])"
  by (auto simp: generateQuestions_def generateSwot_def questionsButtonDisabled_def
      swotButtonDisabled_def)

theorem no_transport_when_guard_fails_witness:
  "businessName (entered (SwotRequest ''acme.csv'' [] ''Acme Corp'' ''sk-test'')) = [] \<and>
   alerts
     (generateQuestions (entered (SwotRequest ''acme.csv'' [] ''Acme Corp'' ''sk-test''))
        (Inr [''Q1''])) = [''Please select a CSV file and enter a business name''] \<and>
   invocations
     (generateQuestions (entered (SwotRequest ''acme.csv'' [] ''Acme Corp'' ''sk-test''))
        (Inr [''Q1''])) = [] \<and>
   pdfPath (entered (SwotRequest ''acme.csv'' [] ''Acme Corp'' ''sk-test'')) = [] \<and>
   alerts
     (generateSwot (entered (SwotRequest ''acme.csv'' [] ''Acme Corp'' ''sk-test''))
        (Inr ''S'')) = [''Please select CSV file, PDF file, and enter a business name''] \<and>
   invocations
     (generateSwot (entered (SwotRequest ''acme.csv'' [] ''Acme Corp'' ''sk-test''))
        (Inr ''S'')) = [] \<and>
   run (generateSwot (entered (SwotRequest ''acme.csv'' [] ''Acme Corp'' ''sk-test'')) (Inr ''S''))
     (entered (SwotRequest ''acme.csv'' [] ''Acme Corp'' ''sk-test'')) =
   entered (SwotRequest ''acme.csv'' [] ''Acme Corp'' ''sk-test'') \<and>
   handle (entered (SwotRequest ''acme.csv'' [] ''Acme Corp'' ''sk-test''))
     (ClickGenerateSwot (Inr ''S'')) = []"
  using
    no_transport_when_guard_fails [of "entered (SwotRequest ''acme.csv'' [] ''Acme Corp'' ''sk-test'')"
      "Inr [''Q1'']" "Inr ''S''"]
  by (simp add: initial_state_def)

text \<open>
  C2 as the specification states it fails on the handlers: a request that fails the
  specification's validation can still reach the transport. A questions request without
  a credential, and a SWOT request whose business name is one blank, are both invalid for
  \<open>spec_validate\<close>; each passes the guard of its handler, and the click on the generate
  button issues the transport call.
\<close>

theorem invalid_request_reaches_transport_counterexample:
  "spec_validate (QuestionsRequest ''acme.csv'' ''Acme Corp'' []) = MissingField Credential \<and>
   invocations
     (handle (entered (QuestionsRequest ''acme.csv'' ''Acme Corp'' []))
        (ClickGenerateQuestions (Inr [''Q1'']))) =
     [GenerateFollowupQuestions ''acme.csv'' ''Acme Corp''] \<and>
   spec_validate (SwotRequest ''acme.csv'' ''qa.pdf'' '' '' ''sk-test'') =
     MissingField BusinessName \<and>
   invocations
     (handle (entered (SwotRequest ''acme.csv'' ''qa.pdf'' '' '' ''sk-test''))
        (ClickGenerateSwot (Inr ''Strengths''))) =
     [GenerateSwotAnalysis ''acme.csv'' ''qa.pdf'' '' '']"
  by (simp add: is_empty_field_def is_whitespace_def generateQuestions_def generateSwot_def
      release_def initial_state_def tabShown_def questionsButtonDisabled_def
      swotButtonDisabled_def)

subsection \<open>Progress\<close>

text \<open>
  C4. A questions job that passes the guard and whose transport call succeeds emits,
  before its release, exactly the phases 0 reading the CSV file, 20 finding the company's
  data, 40 preparing the prompt, 60 generating, 90 processing the results, 100 complete.
  Before the transport call is issued only the first four are emitted, and over the whole
  trace the phase 100 Complete is emitted exactly when the call has resolved and not
  when it has rejected.
\<close>

theorem questions_phase_sequence:
  assumes "csvPath s \<noteq> []" and "businessName s \<noteq> []"
  shows "phases (until_release (generateQuestions s (Inr result))) =
           [(0, ''Reading CSV file...''), (20, ''Finding company data...''),
            (40, ''Preparing AI prompt...''), (60, ''Generating questions with AI...''),
            (90, ''Processing results...''), (100, ''Complete!'')] \<and>
         phases (until_invoke (generateQuestions s outcome)) =
           [(0, ''Reading CSV file...''), (20, ''Finding company data...''),
            (40, ''Preparing AI prompt...''), (60, ''Generating questions with AI...'')] \<and>
         ((100, ''Complete!'') \<in> set (phases (generateQuestions s outcome))) = (\<not> isl outcome)"
  using assms
  by (auto simp: generateQuestions_def release_def split: sum.splits)

theorem questions_phase_sequence_witness:
  "csvPath (entered (QuestionsRequest ''acme.csv'' ''Acme Corp'' ''sk-test'')) \<noteq> [] \<and>
   businessName (entered (QuestionsRequest ''acme.csv'' ''Acme Corp'' ''sk-test'')) \<noteq> [] \<and>
   phases (until_release
     (generateQuestions (entered (QuestionsRequest ''acme.csv'' ''Acme Corp'' ''sk-test''))
        (Inr [''Q1'', ''Q2'']))) =
     [(0, ''Reading CSV file...''), (20, ''Finding company data...''),
      (40, ''Preparing AI prompt...''), (60, ''Generating questions with AI...''),
      (90, ''Processing results...''), (100, ''Complete!'')] \<and>
   (100, ''Complete!'') \<notin> set (phases
     (generateQuestions (entered (QuestionsRequest ''acme.csv'' ''Acme Corp'' ''sk-test''))
        (Inl ''Business name not found'')))"
proof -
  let ?s = "entered (QuestionsRequest ''acme.csv'' ''Acme Corp'' ''sk-test'')"
  have c: "csvPath ?s \<noteq> []" and b: "businessName ?s \<noteq> []"
    by (simp_all add: initial_state_def)
  show ?thesis
    using c b
      questions_phase_sequence [OF c b, of "[''Q1'', ''Q2'']" "Inl ''Business name not found''"]
    by simp
qed

text \<open>
  C3, as the handlers do it. For a job that passes the guard, the percentages set before
  the release timer fires never decrease. When the transport call resolves they are
  0, 20, 40, 60, 90, 100 for questions and 0, 15, 30, 50, 70, 95, 100 for SWOT: 100 is set
  once, last. When the call rejects nothing more is set: the sequence stops at the value
  set before the call (60, or 70), and that value and its label stay in the state until
  the release. The release then resets the progress to 0 and lowers the loading flag, on
  both branches.
\<close>

theorem progress_of_a_job:
  "(csvPath s \<noteq> [] \<and> businessName s \<noteq> [] \<longrightarrow>
      sorted (progress_values (until_release (generateQuestions s q))) \<and>
      progress_values (until_release (generateQuestions s (Inr result))) =
        [0, 20, 40, 60, 90, 100] \<and>
      progress_values (until_release (generateQuestions s (Inl e))) = [0, 20, 40, 60] \<and>
      progress (run (until_release (generateQuestions s (Inl e))) s) = 60 \<and>
      loadingMessage (run (until_release (generateQuestions s (Inl e))) s) =
        ''Generating questions with AI...'' \<and>
      progress (run (generateQuestions s q) s) = 0 \<and>
      \<not> loading (run (generateQuestions s q) s)) \<and>
   (swotCsvPath s \<noteq> [] \<and> pdfPath s \<noteq> [] \<and> swotBusinessName s \<noteq> [] \<longrightarrow>
      sorted (progress_values (until_release (generateSwot s w))) \<and>
      progress_values (until_release (generateSwot s (Inr analysis))) =
        [0, 15, 30, 50, 70, 95, 100] \<and>
      progress_values (until_release (generateSwot s (Inl e))) = [0, 15, 30, 50, 70] \<and>
      progress (run (until_release (generateSwot s (Inl e))) s) = 70 \<and>
      loadingMessage (run (until_release (generateSwot s (Inl e))) s) =
        ''Generating SWOT analysis with AI...'' \<and>
      progress (run (generateSwot s w) s) = 0 \<and>
      \<not> loading (run (generateSwot s w) s))"
  by (auto simp: generateQuestions_def generateSwot_def release_def run_append
      split: sum.splits)

theorem progress_of_a_job_witness:
  "csvPath both_entered \<noteq> [] \<and> businessName both_entered \<noteq> [] \<and>
   swotCsvPath both_entered \<noteq> [] \<and> pdfPath both_entered \<noteq> [] \<and>
   swotBusinessName both_entered \<noteq> [] \<and>
   progress_values (until_release (generateQuestions both_entered (Inr [''Q1'']))) =
     [0, 20, 40, 60, 90, 100] \<and>
   progress_values (until_release (generateSwot both_entered (Inr ''Strengths''))) =
     [0, 15, 30, 50, 70, 95, 100] \<and>
   progress_values (until_release (generateSwot both_entered (Inl ''engine stopped''))) =
     [0, 15, 30, 50, 70] \<and>
   progress (run (generateQuestions both_entered (Inl ''engine stopped'')) both_entered) = 0"
  using
    progress_of_a_job [of both_entered "Inl ''engine stopped''" "[''Q1'']" "''engine stopped''"
      "Inl ''engine stopped''" "''Strengths''"]
  by (simp add: both_entered_def initial_state_def)

text \<open>
  C3 as the specification states it fails on a rejected call: the job sets no terminal
  value of its own. When the transport rejects, the percentages set are 0, 20, 40, 60 and
  the state shown until the release is the one of the generating phase, 60 with its label.
\<close>

theorem progress_on_failure_counterexample:
  "progress_values
     (until_release (generateQuestions both_entered (Inl ''Business name not found''))) =
     [0, 20, 40, 60] \<and>
   progress
     (run (until_invoke (generateQuestions both_entered (Inl ''Business name not found'')))
        both_entered) = 60 \<and>
   progress
     (run (until_release (generateQuestions both_entered (Inl ''Business name not found'')))
        both_entered) = 60 \<and>
   loadingMessage
     (run (until_release (generateQuestions both_entered (Inl ''Business name not found'')))
        both_entered) = ''Generating questions with AI...''"
  by (simp add: generateQuestions_def release_def both_entered_def initial_state_def)

subsection \<open>An empty result\<close>

text \<open>
  C8. When a questions job passes the guard and its transport call resolves with no
  question, the job runs the success branch to its end: all six phases are emitted up to
  100 Complete, the empty list is stored, and then one alert warns that no questions were
  generated. The job is released like any other.
\<close>

theorem empty_result_completes:
  assumes "csvPath s \<noteq> []" and "businessName s \<noteq> []"
  shows "phases (until_release (generateQuestions s (Inr []))) =
           [(0, ''Reading CSV file...''), (20, ''Finding company data...''),
            (40, ''Preparing AI prompt...''), (60, ''Generating questions with AI...''),
            (90, ''Processing results...''), (100, ''Complete!'')] \<and>
         alerts (generateQuestions s (Inr [])) =
           [''No questions were generated. Please check if the business name exists in the CSV file.''] \<and>
         (\<exists>pre. until_release (generateQuestions s (Inr [])) =
            pre @ [SetProgress 100, SetLoadingMessage ''Complete!'',
              Alert ''No questions were generated. Please check if the business name exists in the CSV file.'']) \<and>
         questions (run (generateQuestions s (Inr [])) s) = [] \<and>
         \<not> loading (run (generateQuestions s (Inr [])) s)"
  using assms
  by (auto simp: generateQuestions_def release_def split: sum.splits)

theorem empty_result_completes_witness:
  "csvPath both_entered \<noteq> [] \<and> businessName both_entered \<noteq> [] \<and>
   phases (until_release (generateQuestions both_entered (Inr []))) =
     [(0, ''Reading CSV file...''), (20, ''Finding company data...''),
      (40, ''Preparing AI prompt...''), (60, ''Generating questions with AI...''),
      (90, ''Processing results...''), (100, ''Complete!'')] \<and>
   alerts (generateQuestions both_entered (Inr [])) =
     [''No questions were generated. Please check if the business name exists in the CSV file.'']"
proof -
  have c: "csvPath both_entered \<noteq> []" and b: "businessName both_entered \<noteq> []"
    by (simp_all add: both_entered_def initial_state_def)
  show ?thesis
    using c b empty_result_completes [OF c b] by simp
qed

subsection \<open>Readiness\<close>

lemma ready_after_run:
  "isOllamaReady (run acts s) \<Longrightarrow> isOllamaReady s \<or> SetIsOllamaReady True \<in> set acts"
proof (induction acts arbitrary: s)
  case Nil
  then show ?case by simp
next
  case (Cons a acts)
  then have "isOllamaReady (exec a s) \<or> SetIsOllamaReady True \<in> set acts" by simp
  then show ?case
    by (cases a) auto
qed

lemma handle_invoke_needs_ready:
  assumes "Invoke c \<in> set (handle s e)" and "c \<noteq> CheckOllamaStatus"
  shows "isOllamaReady s"
  using assms
  by (cases e)
    (auto simp: checkOllamaStatus_def tabShown_def saveQuestionsButtonShown_def
      saveSwotButtonShown_def selectCsvFile_def selectPdfFile_def
      split: if_splits sum.splits option.splits)

lemma append_split:
  assumes "xs @ ys = pre @ a # post"
  shows "a \<in> set xs \<or> (\<exists>us. pre = xs @ us \<and> ys = us @ a # post)"
  using assms
proof (induction xs arbitrary: pre)
  case Nil
  then show ?case by simp
next
  case (Cons x xs)
  show ?case
  proof (cases pre)
    case Nil
    with Cons.prems show ?thesis by simp
  next
    case (Cons p pre')
    with Cons.prems have "xs @ ys = pre' @ a # post" and "x = p" by simp_all
    with Cons.IH [of pre'] Cons show ?thesis by auto
  qed
qed

lemma session_invoke_needs_ready:
  assumes "session s es = pre @ Invoke c # post" and "c \<noteq> CheckOllamaStatus"
  shows "isOllamaReady s \<or> SetIsOllamaReady True \<in> set pre"
  using assms
proof (induction es arbitrary: s pre)
  case Nil
  then show ?case by simp
next
  case (Cons e es)
  let ?h = "handle s e"
  from Cons.prems(1) have "?h @ session (run ?h s) es = pre @ Invoke c # post" by simp
  from append_split [OF this]
  show ?case
  proof
    assume "Invoke c \<in> set ?h"
    then show ?thesis using handle_invoke_needs_ready Cons.prems(2) by blast
  next
    assume "\<exists>us. pre = ?h @ us \<and> session (run ?h s) es = us @ Invoke c # post"
    then obtain us where pre: "pre = ?h @ us"
      and rest: "session (run ?h s) es = us @ Invoke c # post" by blast
    from Cons.IH [OF rest Cons.prems(2)]
    have "isOllamaReady (run ?h s) \<or> SetIsOllamaReady True \<in> set us" .
    then show ?thesis using ready_after_run [of ?h s] pre by auto
  qed
qed

lemma scenario_d_trace:
  "session initial_state scenario_d =
     [Invoke CheckOllamaStatus, SetOllamaStatus ''Ollama is not running'',
      SetIsOllamaReady False, Invoke CheckOllamaStatus,
      SetOllamaStatus ''Ollama is running'', SetIsOllamaReady True,
      OpenDialog ''csv'', SetCsvPath ''acme.csv'',
      SetBusinessName ''Acme Corp'', SetLoading True, SetProgress 0,
      SetLoadingMessage ''Reading CSV file...'', SetProgress 20,
      SetLoadingMessage ''Finding company data...'', Await_timeout 500,
      SetProgress 40, SetLoadingMessage ''Preparing AI prompt...'',
      Await_timeout 500, SetProgress 60,
      SetLoadingMessage ''Generating questions with AI...''] @
     Invoke (GenerateFollowupQuestions ''acme.csv'' ''Acme Corp'') #
     [SetProgress 90, SetLoadingMessage ''Processing results...'',
      Await_timeout 300, SetQuestions [''Q1''], SetProgress 100,
      SetLoadingMessage ''Complete!'', After_timeout 500, SetLoading False,
      SetProgress 0, SetLoadingMessage []]"
  by (simp add: scenario_d_def initial_state_def checkOllamaStatus_def tabShown_def
      retryButtonShown_def selectCsvFile_def questionsButtonDisabled_def
      generateQuestions_def release_def)

text \<open>
  C6, as the desktop application does it. In every session from the initial state, a
  transport call other than the readiness check is issued only after a readiness check
  has succeeded (\<open>setIsOllamaReady(true)\<close> stands before it in the trace). While the
  application is not ready the generate buttons are not rendered: a click on them runs no
  handler, so it reaches no transport and reports nothing. The retry button is rendered
  exactly then, and runs \<open>checkOllamaStatus\<close>, which makes the application ready exactly
  when the check resolves. (The handlers of a session run one after the other, each to
  its end.)
\<close>

theorem transport_only_after_readiness:
  "(session initial_state es = pre @ Invoke c # post \<and> c \<noteq> CheckOllamaStatus \<longrightarrow>
      SetIsOllamaReady True \<in> set pre) \<and>
   (\<not> isOllamaReady s \<longrightarrow>
      handle s (ClickGenerateQuestions q) = [] \<and>
      handle s (ClickGenerateSwot w) = [] \<and>
      retryButtonShown s \<and>
      handle s (ClickRetry status) = checkOllamaStatus status) \<and>
   (isOllamaReady (run (checkOllamaStatus status) s) = (\<not> isl status))"
proof -
  have "\<not> isOllamaReady initial_state" by (simp add: initial_state_def)
  then have "session initial_state es = pre @ Invoke c # post \<and> c \<noteq> CheckOllamaStatus \<longrightarrow>
      SetIsOllamaReady True \<in> set pre"
    using session_invoke_needs_ready [of initial_state es pre c post] by blast
  moreover have "\<not> isOllamaReady s \<longrightarrow>
      handle s (ClickGenerateQuestions q) = [] \<and>
      handle s (ClickGenerateSwot w) = [] \<and>
      retryButtonShown s \<and>
      handle s (ClickRetry status) = checkOllamaStatus status"
    by (simp add: tabShown_def retryButtonShown_def)
  moreover have "isOllamaReady (run (checkOllamaStatus status) s) = (\<not> isl status)"
    by (cases status) (simp_all add: checkOllamaStatus_def)
  ultimately show ?thesis by blast
qed

theorem transport_only_after_readiness_witness:
  "session initial_state scenario_d =
     take 20 (session initial_state scenario_d) @
     Invoke (GenerateFollowupQuestions ''acme.csv'' ''Acme Corp'') #
     drop 21 (session initial_state scenario_d) \<and>
   GenerateFollowupQuestions ''acme.csv'' ''Acme Corp'' \<noteq> CheckOllamaStatus \<and>
   SetIsOllamaReady True \<in> set (take 20 (session initial_state scenario_d)) \<and>
   \<not> isOllamaReady initial_state \<and>
   handle initial_state (ClickGenerateQuestions (Inr [''Q1''])) = [] \<and>
   handle initial_state (ClickRetry (Inr ''Ollama is running'')) =
     checkOllamaStatus (Inr ''Ollama is running'') \<and>
   isOllamaReady (run (checkOllamaStatus (Inr ''Ollama is running'')) initial_state)"
proof -
  have split: "session initial_state scenario_d =
     take 20 (session initial_state scenario_d) @
     Invoke (GenerateFollowupQuestions ''acme.csv'' ''Acme Corp'') #
     drop 21 (session initial_state scenario_d)"
    by (simp add: scenario_d_trace)
  have unready: "\<not> isOllamaReady initial_state"
    by (simp add: initial_state_def)
  show ?thesis
    using split unready
      transport_only_after_readiness [of scenario_d "take 20 (session initial_state scenario_d)"
        "GenerateFollowupQuestions ''acme.csv'' ''Acme Corp''"
        "drop 21 (session initial_state scenario_d)" initial_state "Inr [''Q1'']" "Inr ''S''"
        "Inr ''Ollama is running''"]
    by simp
qed

text \<open>
  C6 as the specification states it fails: a submission while the application is not ready
  yields nothing at all, no failure is reported for it. In the session where the check at
  mount fails and the user then tries both generate buttons, the only actions are those of
  the check.
\<close>

theorem not_ready_counterexample:
  "session initial_state
     [Mount (Inl ''Ollama is not running''), ClickGenerateQuestions (Inr [''Q1'']),
      ClickGenerateSwot (Inr ''Strengths'')] =
   [Invoke CheckOllamaStatus, SetOllamaStatus ''Ollama is not running'', SetIsOllamaReady False]"
  by (simp add: initial_state_def checkOllamaStatus_def tabShown_def)

section \<open>Properties of the sessions and of the hosted handlers\<close>

lemma web_run_simps [simp]:
  "web_run [] s = s"
  "web_run (a # acts) s = web_run acts (web_exec a s)"
  by (simp_all add: web_run_def)

subsection \<open>One job at a time\<close>




subsection \<open>Errors\<close>

text \<open>
  C7, as the two applications do it. Every error ends its job and is shown, in these
  forms. Desktop: a rejected generation raises one alert, a fixed prefix followed by the
  error text, after the single transport call; the stored result is kept and the job is
  released. A rejected save dialog or save command raises one alert of the same form. A
  rejected readiness check puts the error text in the status and leaves the application
  not ready. Hosted: a failed generation stores no result, lowers its loading flag and
  displays the message thrown, which for a response that is not ok is \<open>errorMessage\<close> of
  its detail (the detail string or the detail's message when these are non-empty). A
  failed download displays one fixed text, whatever was thrown.
\<close>

theorem errors_are_surfaced:
  "(csvPath s \<noteq> [] \<and> businessName s \<noteq> [] \<longrightarrow>
      alerts (generateQuestions s (Inl e)) = [''Error generating questions: '' @ e] \<and>
      invocations (generateQuestions s (Inl e)) =
        [GenerateFollowupQuestions (csvPath s) (businessName s)] \<and>
      questions (run (generateQuestions s (Inl e)) s) = questions s \<and>
      \<not> loading (run (generateQuestions s (Inl e)) s)) \<and>
   (swotCsvPath s \<noteq> [] \<and> pdfPath s \<noteq> [] \<and> swotBusinessName s \<noteq> [] \<longrightarrow>
      alerts (generateSwot s (Inl e)) = [''Error generating SWOT analysis: '' @ e] \<and>
      invocations (generateSwot s (Inl e)) =
        [GenerateSwotAnalysis (swotCsvPath s) (pdfPath s) (swotBusinessName s)] \<and>
      swotAnalysis (run (generateSwot s (Inl e)) s) = swotAnalysis s \<and>
      \<not> loading (run (generateSwot s (Inl e)) s)) \<and>
   (questions s \<noteq> [] \<and> p \<noteq> [] \<longrightarrow>
      alerts (saveQuestionsToPdf s (Inl e) written) = [''Error saving questions: '' @ e] \<and>
      alerts (saveQuestionsToPdf s (Inr (Some p)) (Inl e)) =
        [''Error saving questions: '' @ e]) \<and>
   (swotAnalysis s \<noteq> [] \<and> p \<noteq> [] \<longrightarrow>
      alerts (saveSwotToPdf s (Inl e) written) = [''Error saving SWOT analysis: '' @ e] \<and>
      alerts (saveSwotToPdf s (Inr (Some p)) (Inl e)) =
        [''Error saving SWOT analysis: '' @ e]) \<and>
   run (checkOllamaStatus (Inl e)) s = s\<lparr>ollamaStatus := e, isOllamaReady := False\<rparr> \<and>
   web_run (generateQuestions_web t (Rejected m)) t =
     t\<lparr>questionsLoading := False, questionsResult := None, error := Some m\<rparr> \<and>
   web_run (generateQuestions_web t (Status_error d)) t =
     t\<lparr>questionsLoading := False, questionsResult := None,
       error := Some (errorMessage d ''Error generating questions'')\<rparr> \<and>
   web_run (generateSwot_web t (Rejected m)) t =
     t\<lparr>swotLoading := False, swotResult := None, error := Some m\<rparr> \<and>
   web_run (generateSwot_web t (Status_error d)) t =
     t\<lparr>swotLoading := False, swotResult := None,
       error := Some (errorMessage d ''Error generating SWOT analysis'')\<rparr> \<and>
   errorMessage (DetailString (x # xs)) fallback = x # xs \<and>
   errorMessage (DetailObject (Some (x # xs))) fallback = x # xs \<and>
   web_run (downloadPdf pdfId filename (Rejected m)) t =
     t\<lparr>error := Some ''Failed to download PDF''\<rparr> \<and>
   web_run (downloadPdf pdfId filename (Status_error d)) t =
     t\<lparr>error := Some ''Failed to download PDF''\<rparr>"
  by (auto simp: generateQuestions_def generateSwot_def release_def saveQuestionsToPdf_def
      saveSwotToPdf_def checkOllamaStatus_def generateQuestions_web_def generateSwot_web_def
      downloadPdf_def)

theorem errors_are_surfaced_witness:
  "csvPath with_results \<noteq> [] \<and> businessName with_results \<noteq> [] \<and>
   swotCsvPath with_results \<noteq> [] \<and> pdfPath with_results \<noteq> [] \<and>
   swotBusinessName with_results \<noteq> [] \<and>
   questions with_results \<noteq> [] \<and> swotAnalysis with_results \<noteq> [] \<and>
   ''out.pdf'' \<noteq> [] \<and>
   alerts (generateQuestions with_results (Inl ''engine stopped'')) =
     [''Error generating questions: engine stopped''] \<and>
   alerts (generateSwot with_results (Inl ''engine stopped'')) =
     [''Error generating SWOT analysis: engine stopped''] \<and>
   alerts (saveQuestionsToPdf with_results (Inr (Some ''out.pdf'')) (Inl ''engine stopped'')) =
     [''Error saving questions: engine stopped''] \<and>
   alerts (saveSwotToPdf with_results (Inl ''engine stopped'') (Inr ())) =
     [''Error saving SWOT analysis: engine stopped''] \<and>
   error (web_run (generateQuestions_web web_entered
     (Status_error (DetailString ''Business name not found''))) web_entered) =
     Some ''Business name not found''"
  using
    errors_are_surfaced [where s = with_results and e = "''engine stopped''"
      and p = "''out.pdf''" and written = "Inr ()" and t = web_entered
      and d = "DetailString ''Business name not found''"]
  by (simp add: with_results_def both_entered_def initial_state_def)

text \<open>
  C7 as the specification states it fails on a download: the text displayed is not the
  error. Two downloads that fail with different errors display the same fixed text.
\<close>

theorem download_error_counterexample:
  "error
     (web_run (downloadPdf ''abc123'' ''Acme Corp_questionnaire.pdf'' (Rejected ''Failed to fetch''))
        web_entered) = Some ''Failed to download PDF'' \<and>
   error
     (web_run
        (downloadPdf ''abc123'' ''Acme Corp_questionnaire.pdf''
           (Rejected ''The operation was aborted.''))
        web_entered) = Some ''Failed to download PDF''"
  by (simp add: downloadPdf_def)

subsection \<open>The count of the remaining questions\<close>

text \<open>
  C9. After a questions job of the hosted application has succeeded with a body that has
  a preview, the block under the result is the numbered preview followed by one line
  whose only number is \<open>questions_count - 5\<close>, an exact integer difference with no lower
  bound: the number shown is negative exactly when \<open>questions_count\<close> is below 5.
  (JavaScript computes the difference on doubles, exactly for counts below 2 to the 53.)
\<close>

theorem additional_questions_count:
  assumes "questions_preview r = Some preview"
  shows "previewBlock (web_run (generateQuestions_web t (Status_ok r)) t) =
           Some (previewItems 0 preview @ [additionalLine r]) \<and>
         numbers (additionalLine r) = [questions_count r - 5] \<and>
         list_all (\<lambda>n. n < 0) (numbers (additionalLine r)) = (questions_count r < 5)"
  using assms
  by (simp add: generateQuestions_web_def previewBlock_def additionalLine_def)

theorem additional_questions_count_witness:
  "questions_preview short_result = Some [''Q1'', ''Q2'', ''Q3''] \<and>
   previewBlock (web_run (generateQuestions_web web_entered (Status_ok short_result)) web_entered) =
     Some [[Number 1, Text ''.'', Text ''Q1''], [Number 2, Text ''.'', Text ''Q2''],
           [Number 3, Text ''.'', Text ''Q3''],
           [Text ''... et '', Number (- 2),
            Text ('' questions suppl'' @ [CHR 0xC3, CHR 0xA9] @ ''mentaires dans le PDF'')]] \<and>
   numbers (additionalLine short_result) = [- 2]"
proof -
  have p: "questions_preview short_result = Some [''Q1'', ''Q2'', ''Q3'']"
    by (simp add: short_result_def)
  show ?thesis
    using p additional_questions_count [OF p, of web_entered]
    by (simp add: short_result_def additionalLine_def)
qed

subsection \<open>What a submission clears\<close>

text \<open>
  C10. When a handler of the hosted application reaches its exchange, the state is the
  one it started from with its own loading flag raised, the error display cleared and
  its own result cleared. Over the whole job both forms and the other workflow's result
  are unchanged. So after a failed job, rejected or answered with a status that is not
  ok, the workflow's result is empty, whatever it was before.
\<close>

theorem submission_clears_error_and_result:
  "web_run (web_until_fetch (generateQuestions_web t qx)) t =
     t\<lparr>questionsLoading := True, error := None, questionsResult := None\<rparr> \<and>
   web_run (web_until_fetch (generateSwot_web t wx)) t =
     t\<lparr>swotLoading := True, error := None, swotResult := None\<rparr> \<and>
   questionsForm (web_run (generateQuestions_web t qx) t) = questionsForm t \<and>
   swotForm (web_run (generateQuestions_web t qx) t) = swotForm t \<and>
   swotResult (web_run (generateQuestions_web t qx) t) = swotResult t \<and>
   swotForm (web_run (generateSwot_web t wx) t) = swotForm t \<and>
   questionsForm (web_run (generateSwot_web t wx) t) = questionsForm t \<and>
   questionsResult (web_run (generateSwot_web t wx) t) = questionsResult t \<and>
   questionsResult (web_run (generateQuestions_web t (Rejected m)) t) = None \<and>
   questionsResult (web_run (generateQuestions_web t (Status_error d)) t) = None \<and>
   swotResult (web_run (generateSwot_web t (Rejected m)) t) = None \<and>
   swotResult (web_run (generateSwot_web t (Status_error d)) t) = None"
  by (auto simp: generateQuestions_web_def generateSwot_web_def split: exchange.splits)

theorem submission_clears_error_and_result_witness:
  "questionsResult (web_entered\<lparr>questionsResult := Some scenario_a_result, error := Some ''old''\<rparr>) =
     Some scenario_a_result \<and>
   questionsResult
     (web_run (generateQuestions_web
        (web_entered\<lparr>questionsResult := Some scenario_a_result, error := Some ''old''\<rparr>)
        (Status_error (DetailString ''Business name not found'')))
        (web_entered\<lparr>questionsResult := Some scenario_a_result, error := Some ''old''\<rparr>)) = None \<and>
   error
     (web_run (web_until_fetch (generateQuestions_web
        (web_entered\<lparr>questionsResult := Some scenario_a_result, error := Some ''old''\<rparr>)
        (Status_error (DetailString ''Business name not found''))))
        (web_entered\<lparr>questionsResult := Some scenario_a_result, error := Some ''old''\<rparr>)) = None"
  using
    submission_clears_error_and_result
      [of "web_entered\<lparr>questionsResult := Some scenario_a_result, error := Some ''old''\<rparr>"
        "Status_error (DetailString ''Business name not found'')" "Rejected ''Failed to fetch''"
        "''Failed to fetch''" "DetailString ''Business name not found''"]
  by simp

end
